theory Spec2Isabelle
  imports Complex_Main "HOL-Library.Multiset"
begin

section \<open>Values of the host language\<close>

text \<open>
  A JavaScript string is modelled as a \<^typ>\<open>string\<close> holding its UTF-8 bytes; the
  program only concatenates and compares strings, and both commute with the encoding.
  The one non-ASCII letter of the program's messages is the e with acute accent.
\<close>

definition e_acute :: string where
  "e_acute = [CHR 0xC3, CHR 0xA9]"

text \<open>
  The dynamically typed values the client reads from a response body (\<open>response.data\<close>
  is of type \<open>any\<close>). Numbers of this model are integers.
\<close>

datatype js_value =
    JUndefined
  | JNull
  | JBool bool
  | JNum int
  | JStr string
  | JArr "js_value list"
  | JObj "(string \<times> js_value) list"

text \<open>What a \<open>try\<close> block can catch: an error of the HTTP library or any other error.\<close>

record AxiosResponse =
  status :: int
  data :: js_value

datatype thrown =
    isAxiosError: AxiosError (code: "string option") (response: "AxiosResponse option") (err_message: string)
  | TypeError (err_message: string)
  | Error (err_message: string)

text \<open>
  \<open>v.key\<close>: reading a property of \<open>undefined\<close> or \<open>null\<close> throws a TypeError; an
  object yields the value stored under the key, or \<open>undefined\<close>. The program reads the
  properties \<open>status\<close>, \<open>detail\<close> and \<open>message\<close> only, which no boolean, number,
  string or array has.
\<close>

fun get_prop :: "js_value \<Rightarrow> string \<Rightarrow> thrown + js_value" where
  "get_prop JUndefined key = Inl (TypeError ''Cannot read properties of undefined'')"
| "get_prop JNull key = Inl (TypeError ''Cannot read properties of null'')"
| "get_prop (JObj kvs) key = Inr (case map_of kvs key of None \<Rightarrow> JUndefined | Some v \<Rightarrow> v)"
| "get_prop v key = Inr JUndefined"

text \<open>\<open>v?.key\<close>: optional chaining yields \<open>undefined\<close> where \<open>v.key\<close> would throw.\<close>

definition opt_prop :: "js_value \<Rightarrow> string \<Rightarrow> js_value" where
  "opt_prop v key = (case get_prop v key of Inl e \<Rightarrow> JUndefined | Inr x \<Rightarrow> x)"

fun truthy :: "js_value \<Rightarrow> bool" where
  "truthy JUndefined = False"
| "truthy JNull = False"
| "truthy (JBool b) = b"
| "truthy (JNum n) = (n \<noteq> 0)"
| "truthy (JStr s) = (s \<noteq> [])"
| "truthy (JArr xs) = True"
| "truthy (JObj kvs) = True"

text \<open>\<open>a || b\<close>\<close>

definition js_or :: "js_value \<Rightarrow> js_value \<Rightarrow> js_value" where
  "js_or a b = (if truthy a then a else b)"

text \<open>\<open>Array.prototype.join\<close> on strings.\<close>

fun join :: "string \<Rightarrow> string list \<Rightarrow> string" where
  "join sep [] = []"
| "join sep [x] = x"
| "join sep (x # y # ys) = x @ sep @ join sep (y # ys)"

text \<open>Decimal rendering of an integer, as \<open>Number.prototype.toString\<close> gives it.\<close>

definition digit_char :: "nat \<Rightarrow> char" where
  "digit_char d = ''0123456789'' ! d"

function show_nat :: "nat \<Rightarrow> string" where
  "show_nat n = (if n < 10 then [digit_char n] else show_nat (n div 10) @ [digit_char (n mod 10)])"
  by pat_completeness auto
termination
  by (relation "measure id") auto

definition show_int :: "int \<Rightarrow> string" where
  "show_int i = (if i < 0 then CHR ''-'' # show_nat (nat (- i)) else show_nat (nat i))"

text \<open>
  The string conversion a template literal applies to an interpolated value: an array
  joins the conversions of its elements with a comma (\<open>undefined\<close> and \<open>null\<close>
  elements give the empty string), an object gives a fixed tag.
\<close>

fun to_string :: "js_value \<Rightarrow> string" where
  "to_string JUndefined = ''undefined''"
| "to_string JNull = ''null''"
| "to_string (JBool b) = (if b then ''true'' else ''false'')"
| "to_string (JNum n) = show_int n"
| "to_string (JStr s) = s"
| "to_string (JArr xs) =
     join '','' (map (\<lambda>x. if x = JUndefined \<or> x = JNull then [] else to_string x) xs)"
| "to_string (JObj kvs) = ''[object Object]''"

text \<open>
  \<open>Array.prototype.sort(compareFn)\<close> is a stable sort: an element moves behind another
  only when the comparator is positive on them. It is modelled by stable insertion.
\<close>

fun insert_by :: "('a \<Rightarrow> 'a \<Rightarrow> int) \<Rightarrow> 'a \<Rightarrow> 'a list \<Rightarrow> 'a list" where
  "insert_by compareFn x [] = [x]"
| "insert_by compareFn x (y # ys) =
     (if compareFn x y \<le> 0 then x # y # ys else y # insert_by compareFn x ys)"

definition array_sort :: "('a \<Rightarrow> 'a \<Rightarrow> int) \<Rightarrow> 'a list \<Rightarrow> 'a list" where
  "array_sort compareFn xs = foldr (insert_by compareFn) xs []"

section \<open>Data transfer objects\<close>

text \<open>The upstream service's request and response shapes (snake case).\<close>

record QuotePayload =
  vendor_name :: string
  content :: string
  category :: string

record AnalysisPayload =
  vendor_name :: string
  price :: "real option"
  currency :: string
  strengths :: "string list"
  weaknesses :: "string list"
  risks :: "string list"
  score :: int
  score_reasoning :: string

record AnalyzeResponse =
  analyses :: "AnalysisPayload list"
  recommendation :: string

text \<open>\<open>create-quote.dto.ts\<close>\<close>

record CreateQuoteDto =
  vendorName :: string
  content :: string
  category :: string

text \<open>
  \<open>analysis-result.dto.ts\<close>. The price is \<open>number | null\<close>: \<open>None\<close> is \<open>null\<close>. The score
  is an integer: the rules subtract whole points, which JavaScript numbers do exactly on
  integers below \<open>2^53\<close> in magnitude. A date is its number of milliseconds.
\<close>

record QuoteAnalysisDto =
  vendorName :: string
  price :: "real option"
  currency :: string
  strengths :: "string list"
  weaknesses :: "string list"
  risks :: "string list"
  score :: int
  scoreReasoning :: string

type_synonym Date = int

record AnalysisResultDto =
  analyses :: "QuoteAnalysisDto list"
  recommendation :: string
  analyzedAt :: Date

text \<open>
  The exceptions of the web framework: \<open>BadRequestException(message)\<close> and
  \<open>HttpException(response, status)\<close> with the response object the client builds.
\<close>

record ErrorBody =
  statusCode :: int
  message :: string
  error :: string

datatype exception =
    BadRequestException string
  | HttpException ErrorBody int

fun getStatus :: "exception \<Rightarrow> int" where
  "getStatus (BadRequestException m) = 400"
| "getStatus (HttpException body st) = st"

fun getMessage :: "exception \<Rightarrow> string" where
  "getMessage (BadRequestException m) = m"
| "getMessage (HttpException body st) = message body"

section \<open>The upstream analysis client (\<open>ai-service.client.ts\<close>)\<close>

text \<open>
  The outbound calls \<open>this.client.post('/analyze', payload)\<close> and \<open>this.client.get('/')\<close>
  are parameters of the model: a call either throws or yields a response. A call that
  exceeds its timeout throws an \<open>AxiosError\<close> with code \<open>ECONNABORTED\<close>. Logging is left
  out: it does not change what a method returns or throws.
\<close>

definition serialize :: "CreateQuoteDto list \<Rightarrow> QuotePayload list" where
  "serialize quotes =
     map (\<lambda>q. \<lparr>QuotePayload.vendor_name = CreateQuoteDto.vendorName q,
                QuotePayload.content = CreateQuoteDto.content q,
                QuotePayload.category = CreateQuoteDto.category q\<rparr>) quotes"

definition deserialize :: "AnalysisPayload \<Rightarrow> QuoteAnalysisDto" where
  "deserialize analysis =
     \<lparr>vendorName = AnalysisPayload.vendor_name analysis,
      price = AnalysisPayload.price analysis,
      currency = AnalysisPayload.currency analysis,
      strengths = AnalysisPayload.strengths analysis,
      weaknesses = AnalysisPayload.weaknesses analysis,
      risks = AnalysisPayload.risks analysis,
      score = AnalysisPayload.score analysis,
      scoreReasoning = score_reasoning analysis\<rparr>"

definition internal_server_error :: exception where
  "internal_server_error =
     HttpException
       \<lparr>statusCode = 500,
        message = ''Une erreur inattendue est survenue lors de l'analyse des devis'',
        error = ''Internal Server Error''\<rparr>
       500"

definition handleError :: "thrown \<Rightarrow> exception" where
  "handleError err =
     (if isAxiosError err then
        if code err = Some ''ECONNREFUSED'' \<or> code err = Some ''ENOTFOUND'' then
          HttpException
            \<lparr>statusCode = 503,
             message = ''Le service d'analyse IA est temporairement indisponible. Veuillez r''
               @ e_acute @ ''essayer dans quelques instants.'',
             error = ''Service Unavailable''\<rparr>
            503
        else if code err = Some ''ECONNABORTED'' \<or> code err = Some ''ETIMEDOUT'' then
          HttpException
            \<lparr>statusCode = 504,
             message = ''L'analyse prend trop de temps. Veuillez r'' @ e_acute
               @ ''duire le nombre de devis ou r'' @ e_acute @ ''essayer.'',
             error = ''Gateway Timeout''\<rparr>
            504
        else
          (case response err of
             Some r \<Rightarrow>
               (let aiErrorMessage =
                      js_or (js_or (opt_prop (data r) ''detail'') (opt_prop (data r) ''message''))
                        (JStr ''Erreur inconnue du service IA'')
                in HttpException
                     \<lparr>statusCode = status r,
                      message = ''Erreur lors de l'analyse : '' @ to_string aiErrorMessage,
                      error = ''AI Service Error''\<rparr>
                     (status r))
           | None \<Rightarrow> internal_server_error)
      else internal_server_error)"

definition AIServiceClient_analyzeQuotes ::
  "(QuotePayload list \<Rightarrow> thrown + AnalyzeResponse) \<Rightarrow> Date \<Rightarrow> CreateQuoteDto list
     \<Rightarrow> exception + AnalysisResultDto" where
  "AIServiceClient_analyzeQuotes post now quotes =
     (let payload = serialize quotes in
      case post payload of
        Inr resp \<Rightarrow>
          Inr \<lparr>analyses = map deserialize (AnalyzeResponse.analyses resp),
               recommendation = AnalyzeResponse.recommendation resp,
               analyzedAt = now\<rparr>
      | Inl err \<Rightarrow> Inl (handleError err))"

text \<open>
  \<open>checkHealth\<close>: the property read and the comparison are inside the \<open>try\<close> block, so
  the \<open>catch\<close> clause turns whatever is thrown there into \<open>false\<close>.
\<close>

definition checkHealth :: "thrown + AxiosResponse \<Rightarrow> thrown + bool" where
  "checkHealth get =
     (let attempt =
            (case get of
               Inl err \<Rightarrow> Inl err
             | Inr resp \<Rightarrow>
                 (case get_prop (data resp) ''status'' of
                    Inl err \<Rightarrow> Inl err
                  | Inr st \<Rightarrow> Inr (st = JStr ''ok'')))
      in case attempt of Inl err \<Rightarrow> Inr False | Inr b \<Rightarrow> Inr b)"

subsection \<open>The older copy of the client\<close>

text \<open>
  The repository holds a second, older \<open>AIServiceClient\<close> whose \<open>catch\<close> block is
  written inline. It throws \<open>HttpException(message, status)\<close> with a string response.
  It tests the code \<open>ECONNREFUSED\<close> only, and it reads \<open>error.response.data.detail\<close>
  without optional chaining, inside the \<open>catch\<close> block: a TypeError raised by that read
  is caught by nothing and leaves the method as it is. Its response mapping and its
  \<open>checkHealth\<close> are those of the current client.
\<close>

datatype escaped =
    HttpExceptionOf string int
  | Uncaught thrown

definition analyzeQuotes_catch_older :: "thrown \<Rightarrow> escaped" where
  "analyzeQuotes_catch_older err =
     (if isAxiosError err then
        if code err = Some ''ECONNREFUSED'' then
          HttpExceptionOf
            (''Le service IA est indisponible. Veuillez r'' @ e_acute @ ''essayer plus tard.'')
            503
        else
          (case response err of
             Some r \<Rightarrow>
               (case get_prop (data r) ''detail'' of
                  Inl e \<Rightarrow> Uncaught e
                | Inr detail \<Rightarrow>
                    HttpExceptionOf
                      (''Erreur du service IA : ''
                         @ to_string (js_or detail (JStr (err_message err))))
                      (status r))
           | None \<Rightarrow> HttpExceptionOf ''Erreur lors de l'analyse des devis'' 500)
      else HttpExceptionOf ''Erreur lors de l'analyse des devis'' 500)"

definition AIServiceClient_analyzeQuotes_older ::
  "(QuotePayload list \<Rightarrow> thrown + AnalyzeResponse) \<Rightarrow> Date \<Rightarrow> CreateQuoteDto list
     \<Rightarrow> escaped + AnalysisResultDto" where
  "AIServiceClient_analyzeQuotes_older post now quotes =
     (let payload = serialize quotes in
      case post payload of
        Inr resp \<Rightarrow>
          Inr \<lparr>analyses = map deserialize (AnalyzeResponse.analyses resp),
               recommendation = AnalyzeResponse.recommendation resp,
               analyzedAt = now\<rparr>
      | Inl err \<Rightarrow> Inl (analyzeQuotes_catch_older err))"

section \<open>The quotes service (\<open>quotes.service.ts\<close>)\<close>

definition applyBusinessRules :: "QuoteAnalysisDto \<Rightarrow> QuoteAnalysisDto" where
  "applyBusinessRules analysis =
     (let adjustedScore = score analysis;
          penalties = [];
          (adjustedScore, penalties) =
            (if price analysis = None
             then (adjustedScore - 10,
                   penalties @ [''Prix non sp'' @ e_acute @ ''cifi'' @ e_acute @ '' (-10 pts)''])
             else (adjustedScore, penalties));
          (adjustedScore, penalties) =
            (if length (strengths analysis) < 2
             then (adjustedScore - 5,
                   penalties @ [''Peu d'avantages identifi'' @ e_acute @ ''s (-5 pts)''])
             else (adjustedScore, penalties));
          (adjustedScore, penalties) =
            (if length (risks analysis) > 3
             then (adjustedScore - 10,
                   penalties @ [''Nombreux risques d'' @ e_acute @ ''tect'' @ e_acute @ ''s (-10 pts)''])
             else (adjustedScore, penalties));
          adjustedScore = max 0 adjustedScore;
          updatedReasoning = scoreReasoning analysis;
          updatedReasoning =
            (if length penalties > 0
             then updatedReasoning @ '' | Ajustements m'' @ e_acute @ ''tier : ''
                    @ join '', '' penalties
             else updatedReasoning)
      in analysis\<lparr>score := adjustedScore, scoreReasoning := updatedReasoning\<rparr>)"

text \<open>
  The other copy of \<open>quotes.service.ts\<close> applies the same rules inside the callback of
  \<open>result.analyses.map\<close>: it appends to the reasoning of the analysis it was given, with
  a shorter separator, and then overrides the score.
\<close>

definition analyzeQuotes_rules :: "QuoteAnalysisDto \<Rightarrow> QuoteAnalysisDto" where
  "analyzeQuotes_rules analysis =
     (let adjustedScore = score analysis;
          penalties = [];
          (adjustedScore, penalties) =
            (if price analysis = None
             then (adjustedScore - 10,
                   penalties @ [''Prix non sp'' @ e_acute @ ''cifi'' @ e_acute @ '' (-10 pts)''])
             else (adjustedScore, penalties));
          (adjustedScore, penalties) =
            (if length (strengths analysis) < 2
             then (adjustedScore - 5,
                   penalties @ [''Peu d'avantages identifi'' @ e_acute @ ''s (-5 pts)''])
             else (adjustedScore, penalties));
          (adjustedScore, penalties) =
            (if length (risks analysis) > 3
             then (adjustedScore - 10,
                   penalties @ [''Nombreux risques d'' @ e_acute @ ''tect'' @ e_acute @ ''s (-10 pts)''])
             else (adjustedScore, penalties));
          adjustedScore = max 0 adjustedScore;
          analysis =
            (if length penalties > 0
             then analysis\<lparr>scoreReasoning :=
                    scoreReasoning analysis @ '' | Ajustements : '' @ join '', '' penalties\<rparr>
             else analysis)
      in analysis\<lparr>score := adjustedScore\<rparr>)"

text \<open>The sort of the handler, \<open>analyses.sort((a, b) => b.score - a.score)\<close>.\<close>

definition rank :: "QuoteAnalysisDto list \<Rightarrow> QuoteAnalysisDto list" where
  "rank batch = array_sort (\<lambda>a b. score b - score a) batch"

definition QuotesService_analyzeQuotes ::
  "(QuotePayload list \<Rightarrow> thrown + AnalyzeResponse) \<Rightarrow> Date \<Rightarrow> CreateQuoteDto list
     \<Rightarrow> exception + AnalysisResultDto" where
  "QuotesService_analyzeQuotes post now quotes =
     (if length quotes < 2 then
        Inl (BadRequestException
               ''Veuillez soumettre au moins 2 devis pour une comparaison pertinente'')
      else if length quotes > 10 then
        Inl (BadRequestException
               (''Maximum 10 devis par analyse pour garantir un temps de r'' @ e_acute
                  @ ''ponse acceptable''))
      else
        (case AIServiceClient_analyzeQuotes post now quotes of
           Inl e \<Rightarrow> Inl e
         | Inr result \<Rightarrow>
             Inr (result\<lparr>analyses := rank (map applyBusinessRules (analyses result))\<rparr>)))"

section \<open>The scoring rules as the specification words them\<close>

text \<open>
  The specification describes the adjustment by a penalty sum and a list of notes: three
  rules, each checked on its own, in a fixed order. These two definitions follow its
  words; the theorems below compare \<^const>\<open>applyBusinessRules\<close> with them.
\<close>

definition spec_penalty :: "QuoteAnalysisDto \<Rightarrow> int" where
  "spec_penalty a =
     (if price a = None then 10 else 0)
   + (if length (strengths a) < 2 then 5 else 0)
   + (if length (risks a) > 3 then 10 else 0)"

definition spec_notes :: "QuoteAnalysisDto \<Rightarrow> string list" where
  "spec_notes a =
     (if price a = None
      then [''Prix non sp'' @ e_acute @ ''cifi'' @ e_acute @ '' (-10 pts)''] else [])
   @ (if length (strengths a) < 2
      then [''Peu d'avantages identifi'' @ e_acute @ ''s (-5 pts)''] else [])
   @ (if length (risks a) > 3
      then [''Nombreux risques d'' @ e_acute @ ''tect'' @ e_acute @ ''s (-10 pts)''] else [])"

section \<open>Properties of the scoring rules\<close>

lemma score_applyBusinessRules:
  "score (applyBusinessRules a) = max 0 (score a - spec_penalty a)"
  by (simp add: applyBusinessRules_def spec_penalty_def Let_def)

lemma scoreReasoning_applyBusinessRules:
  "scoreReasoning (applyBusinessRules a) =
     (if spec_notes a = [] then scoreReasoning a
      else scoreReasoning a @ '' | Ajustements m'' @ e_acute @ ''tier : ''
             @ join '', '' (spec_notes a))"
  by (simp add: applyBusinessRules_def spec_notes_def Let_def)

lemma spec_penalty_pos_iff: "0 < spec_penalty a \<longleftrightarrow> spec_notes a \<noteq> []"
  by (simp add: spec_penalty_def spec_notes_def)

lemma no_rule_fires:
  assumes "price a \<noteq> None" and "2 \<le> length (strengths a)" and "length (risks a) \<le> 3"
  shows "spec_penalty a = 0" and "spec_notes a = []"
  using assms by (simp_all add: spec_penalty_def spec_notes_def)

text \<open>
  The callback of the other copy differs from \<^const>\<open>applyBusinessRules\<close> in the
  separator only, so what follows for the score and the untouched fields holds for it too.
\<close>

lemma analyzeQuotes_rules_eq:
  "analyzeQuotes_rules a =
     (applyBusinessRules a)
       \<lparr>scoreReasoning :=
          (if spec_notes a = [] then scoreReasoning a
           else scoreReasoning a @ '' | Ajustements : '' @ join '', '' (spec_notes a))\<rparr>"
  by (simp add: analyzeQuotes_rules_def applyBusinessRules_def spec_notes_def Let_def)

text \<open>
  Claim C1. The adjusted score is the raw score minus the sum of the penalties of the
  rules that fire (10 for a null price, 5 for fewer than two strengths, 10 for more than
  three risks), floored at 0. When a rule fires, the reasoning is the original text, the
  separator, and the notes of the fired rules in rule order joined by a comma and a space.
  An analysis with a null price, one strength, four risks and raw score 80 gets score 55
  and all three notes.
\<close>

theorem applyBusinessRules_penalties:
  "score (applyBusinessRules a) = max 0 (score a - spec_penalty a) \<and>
   (0 < spec_penalty a \<longrightarrow>
      scoreReasoning (applyBusinessRules a) =
        scoreReasoning a @ '' | Ajustements m'' @ e_acute @ ''tier : ''
          @ join '', '' (spec_notes a)) \<and>
   (price a = None \<and> length (strengths a) = 1 \<and> length (risks a) = 4 \<and> score a = 80 \<longrightarrow>
      score (applyBusinessRules a) = 55 \<and>
      scoreReasoning (applyBusinessRules a) =
        scoreReasoning a @ '' | Ajustements m'' @ e_acute @ ''tier : ''
          @ ''Prix non sp'' @ e_acute @ ''cifi'' @ e_acute @ '' (-10 pts)'' @ '', ''
          @ ''Peu d'avantages identifi'' @ e_acute @ ''s (-5 pts)'' @ '', ''
          @ ''Nombreux risques d'' @ e_acute @ ''tect'' @ e_acute @ ''s (-10 pts)'')"
proof (intro conjI impI)
  show "score (applyBusinessRules a) = max 0 (score a - spec_penalty a)"
    by (rule score_applyBusinessRules)
next
  assume "0 < spec_penalty a"
  then have "spec_notes a \<noteq> []"
    by (simp add: spec_penalty_pos_iff)
  then show "scoreReasoning (applyBusinessRules a) =
      scoreReasoning a @ '' | Ajustements m'' @ e_acute @ ''tier : ''
        @ join '', '' (spec_notes a)"
    by (simp add: scoreReasoning_applyBusinessRules)
next
  assume ex: "price a = None \<and> length (strengths a) = 1 \<and> length (risks a) = 4 \<and> score a = 80"
  then have "spec_penalty a = 25"
    by (simp add: spec_penalty_def)
  with ex show "score (applyBusinessRules a) = 55"
    by (simp add: score_applyBusinessRules)
next
  assume "price a = None \<and> length (strengths a) = 1 \<and> length (risks a) = 4 \<and> score a = 80"
  then show "scoreReasoning (applyBusinessRules a) =
      scoreReasoning a @ '' | Ajustements m'' @ e_acute @ ''tier : ''
        @ ''Prix non sp'' @ e_acute @ ''cifi'' @ e_acute @ '' (-10 pts)'' @ '', ''
        @ ''Peu d'avantages identifi'' @ e_acute @ ''s (-5 pts)'' @ '', ''
        @ ''Nombreux risques d'' @ e_acute @ ''tect'' @ e_acute @ ''s (-10 pts)''"
    by (simp add: scoreReasoning_applyBusinessRules spec_notes_def)
qed

theorem applyBusinessRules_penalties_witness:
  "0 < spec_penalty
         \<lparr>vendorName = ''Acme'', price = None, currency = ''EUR'', strengths = [''a''],
          weaknesses = [], risks = [''x'', ''y'', ''z'', ''w''], score = 80,
          scoreReasoning = ''Solide''\<rparr> \<and>
   score (applyBusinessRules
         \<lparr>vendorName = ''Acme'', price = None, currency = ''EUR'', strengths = [''a''],
          weaknesses = [], risks = [''x'', ''y'', ''z'', ''w''], score = 80,
          scoreReasoning = ''Solide''\<rparr>) = 55 \<and>
   scoreReasoning (applyBusinessRules
         \<lparr>vendorName = ''Acme'', price = None, currency = ''EUR'', strengths = [''a''],
          weaknesses = [], risks = [''x'', ''y'', ''z'', ''w''], score = 80,
          scoreReasoning = ''Solide''\<rparr>)
     = ''Solide | Ajustements m'' @ e_acute @ ''tier : Prix non sp'' @ e_acute @ ''cifi''
         @ e_acute @ '' (-10 pts), Peu d'avantages identifi'' @ e_acute
         @ ''s (-5 pts), Nombreux risques d'' @ e_acute @ ''tect'' @ e_acute @ ''s (-10 pts)''"
  using applyBusinessRules_penalties
    [of "\<lparr>vendorName = ''Acme'', price = None, currency = ''EUR'', strengths = [''a''],
          weaknesses = [], risks = [''x'', ''y'', ''z'', ''w''], score = 80,
          scoreReasoning = ''Solide''\<rparr>"]
  by (simp add: spec_penalty_def spec_notes_def)

text \<open>
  Claim C2, as stated: with a price, at least two strengths and at most three risks, the
  score and the reasoning come back unchanged whatever the raw score. The floor is
  applied all the same, so a negative raw score comes back as 0.
\<close>

theorem applyBusinessRules_unchanged_counterexample:
  "\<not> (score (applyBusinessRules
          \<lparr>vendorName = ''Acme'', price = Some 100, currency = ''EUR'',
           strengths = [''a'', ''b''], weaknesses = [], risks = [], score = - 5,
           scoreReasoning = ''Faible''\<rparr>) = - 5)"
  by (simp add: applyBusinessRules_def Let_def)

text \<open>
  Claim C2, amended: with a price, at least two strengths and at most three risks, the
  reasoning is unchanged and the score is the raw score floored at 0; it is the raw score
  itself whenever that is not negative.
\<close>

theorem applyBusinessRules_no_penalty:
  "price a \<noteq> None \<Longrightarrow> 2 \<le> length (strengths a) \<Longrightarrow> length (risks a) \<le> 3 \<Longrightarrow>
     score (applyBusinessRules a) = max 0 (score a) \<and>
     (0 \<le> score a \<longrightarrow> score (applyBusinessRules a) = score a) \<and>
     scoreReasoning (applyBusinessRules a) = scoreReasoning a"
  using no_rule_fires [of a]
  by (simp add: score_applyBusinessRules scoreReasoning_applyBusinessRules)

theorem applyBusinessRules_no_penalty_witness:
  "price \<lparr>vendorName = ''Acme'', price = Some 100, currency = ''EUR'',
          strengths = [''a'', ''b'', ''c''], weaknesses = [], risks = [], score = 5,
          scoreReasoning = ''Faible''\<rparr> \<noteq> None \<and>
   score (applyBusinessRules
         \<lparr>vendorName = ''Acme'', price = Some 100, currency = ''EUR'',
          strengths = [''a'', ''b'', ''c''], weaknesses = [], risks = [], score = 5,
          scoreReasoning = ''Faible''\<rparr>) = 5 \<and>
   scoreReasoning (applyBusinessRules
         \<lparr>vendorName = ''Acme'', price = Some 100, currency = ''EUR'',
          strengths = [''a'', ''b'', ''c''], weaknesses = [], risks = [], score = 5,
          scoreReasoning = ''Faible''\<rparr>) = ''Faible''"
  using applyBusinessRules_no_penalty
    [of "\<lparr>vendorName = ''Acme'', price = Some 100, currency = ''EUR'',
          strengths = [''a'', ''b'', ''c''], weaknesses = [], risks = [], score = 5,
          scoreReasoning = ''Faible''\<rparr>"]
  by simp

text \<open>
  Claim C6, as stated: the adjusted score lies between 0 and 100 whatever the raw score.
  There is no ceiling: a raw score of 150 with no rule firing stays 150.
\<close>

theorem applyBusinessRules_score_range_counterexample:
  "\<not> (0 \<le> score (applyBusinessRules
          \<lparr>vendorName = ''Acme'', price = Some 100, currency = ''EUR'',
           strengths = [''a'', ''b''], weaknesses = [], risks = [], score = 150,
           scoreReasoning = ''Fort''\<rparr>) \<and>
       score (applyBusinessRules
          \<lparr>vendorName = ''Acme'', price = Some 100, currency = ''EUR'',
           strengths = [''a'', ''b''], weaknesses = [], risks = [], score = 150,
           scoreReasoning = ''Fort''\<rparr>) \<le> 100)"
  by (simp add: applyBusinessRules_def Let_def)

text \<open>
  Claim C6, amended: the adjusted score is at least 0 whatever the raw score, and it is at
  most 100 whenever the raw score is at most 100.
\<close>

theorem applyBusinessRules_score_bounds:
  "0 \<le> score (applyBusinessRules a) \<and>
   (score a \<le> 100 \<longrightarrow> score (applyBusinessRules a) \<le> 100)"
  by (simp add: score_applyBusinessRules spec_penalty_def)

theorem applyBusinessRules_score_bounds_witness:
  "(70::int) \<le> 100 \<and>
   0 \<le> score (applyBusinessRules
         \<lparr>vendorName = ''Acme'', price = None, currency = ''EUR'', strengths = [],
          weaknesses = [], risks = [], score = 70, scoreReasoning = ''Moyen''\<rparr>) \<and>
   score (applyBusinessRules
         \<lparr>vendorName = ''Acme'', price = None, currency = ''EUR'', strengths = [],
          weaknesses = [], risks = [], score = 70, scoreReasoning = ''Moyen''\<rparr>) \<le> 100"
  using applyBusinessRules_score_bounds
    [of "\<lparr>vendorName = ''Acme'', price = None, currency = ''EUR'', strengths = [],
          weaknesses = [], risks = [], score = 70, scoreReasoning = ''Moyen''\<rparr>"]
  by simp

text \<open>
  Claim C9. The adjustment changes the score and the reasoning only: vendor name, price,
  currency, strengths, weaknesses and risks are those of the input.
\<close>

theorem applyBusinessRules_frame:
  "vendorName (applyBusinessRules a) = vendorName a \<and>
   price (applyBusinessRules a) = price a \<and>
   currency (applyBusinessRules a) = currency a \<and>
   strengths (applyBusinessRules a) = strengths a \<and>
   weaknesses (applyBusinessRules a) = weaknesses a \<and>
   risks (applyBusinessRules a) = risks a"
  by (simp add: applyBusinessRules_def Let_def)

text \<open>
  Claim C10. The floor does not depend on a rule firing: with a price, at least two
  strengths, at most three risks and a negative raw score, the adjusted score is 0, which
  differs from the raw score, and the reasoning is unchanged.
\<close>

theorem applyBusinessRules_floor_unconditional:
  "price a \<noteq> None \<Longrightarrow> 2 \<le> length (strengths a) \<Longrightarrow> length (risks a) \<le> 3 \<Longrightarrow>
   score a < 0 \<Longrightarrow>
     score (applyBusinessRules a) = 0 \<and>
     score (applyBusinessRules a) \<noteq> score a \<and>
     scoreReasoning (applyBusinessRules a) = scoreReasoning a"
  using no_rule_fires [of a]
  by (simp add: score_applyBusinessRules scoreReasoning_applyBusinessRules)

theorem applyBusinessRules_floor_unconditional_witness:
  "score \<lparr>vendorName = ''Bolt'', price = Some 0, currency = ''USD'',
          strengths = [''a'', ''b''], weaknesses = [''c''], risks = [''x'', ''y'', ''z''],
          score = - 12, scoreReasoning = ''Rejet''\<rparr> < 0 \<and>
   score (applyBusinessRules
         \<lparr>vendorName = ''Bolt'', price = Some 0, currency = ''USD'',
          strengths = [''a'', ''b''], weaknesses = [''c''], risks = [''x'', ''y'', ''z''],
          score = - 12, scoreReasoning = ''Rejet''\<rparr>) = 0 \<and>
   scoreReasoning (applyBusinessRules
         \<lparr>vendorName = ''Bolt'', price = Some 0, currency = ''USD'',
          strengths = [''a'', ''b''], weaknesses = [''c''], risks = [''x'', ''y'', ''z''],
          score = - 12, scoreReasoning = ''Rejet''\<rparr>) = ''Rejet''"
  using applyBusinessRules_floor_unconditional
    [of "\<lparr>vendorName = ''Bolt'', price = Some 0, currency = ''USD'',
          strengths = [''a'', ''b''], weaknesses = [''c''], risks = [''x'', ''y'', ''z''],
          score = - 12, scoreReasoning = ''Rejet''\<rparr>"]
  by simp

section \<open>Properties of the ranking\<close>

lemma mset_insert_by: "mset (insert_by compareFn x ys) = add_mset x (mset ys)"
  by (induction ys) simp_all

lemma mset_array_sort: "mset (array_sort compareFn xs) = mset xs"
  unfolding array_sort_def by (induction xs) (simp_all add: mset_insert_by)

lemma set_insert_by: "set (insert_by compareFn x ys) = insert x (set ys)"
  using mset_insert_by [of compareFn x ys, THEN arg_cong, of set_mset] by simp

lemma sorted_insert_by_score:
  "sorted_wrt (\<lambda>a b. score b \<le> score a) ys \<Longrightarrow>
   sorted_wrt (\<lambda>a b. score b \<le> score a) (insert_by (\<lambda>a b. score b - score a) x ys)"
proof (induction ys)
  case Nil
  then show ?case by simp
next
  case (Cons y ys)
  show ?case
  proof (cases "score y - score x \<le> 0")
    case True
    with Cons.prems show ?thesis by auto
  next
    case False
    with Cons show ?thesis by (auto simp: set_insert_by)
  qed
qed

lemma mset_rank: "mset (rank batch) = mset batch"
  by (simp add: rank_def mset_array_sort)

lemma sorted_rank: "sorted_wrt (\<lambda>a b. score b \<le> score a) (rank batch)"
  unfolding rank_def array_sort_def
  by (induction batch) (simp_all add: sorted_insert_by_score)

text \<open>
  Claim C5. The ranking returns the analyses it was given, each as often as it was given
  (none added, dropped or changed), in descending order of score: every analysis has a
  score at least that of every analysis behind it.
\<close>

theorem rank_permutes_and_sorts:
  "mset (rank batch) = mset batch \<and> sorted_wrt (\<lambda>a b. score b \<le> score a) (rank batch)"
  by (simp add: sorted_rank mset_rank)

section \<open>Properties of the upstream client\<close>

lemma handleError_is_http:
  "\<exists>body st. handleError err = HttpException body st \<and> statusCode body = st"
  by (simp add: handleError_def internal_server_error_def Let_def split: option.splits)

lemma handleError_unavailable:
  "isAxiosError err \<Longrightarrow> code err = Some ''ECONNREFUSED'' \<or> code err = Some ''ENOTFOUND'' \<Longrightarrow>
   handleError err =
     HttpException
       \<lparr>statusCode = 503,
        message = ''Le service d'analyse IA est temporairement indisponible. Veuillez r''
          @ e_acute @ ''essayer dans quelques instants.'',
        error = ''Service Unavailable''\<rparr>
       503"
  unfolding handleError_def by (simp only: if_True)

lemma handleError_timeout:
  "isAxiosError err \<Longrightarrow> code err = Some ''ECONNABORTED'' \<or> code err = Some ''ETIMEDOUT'' \<Longrightarrow>
   handleError err =
     HttpException
       \<lparr>statusCode = 504,
        message = ''L'analyse prend trop de temps. Veuillez r'' @ e_acute
          @ ''duire le nombre de devis ou r'' @ e_acute @ ''essayer.'',
        error = ''Gateway Timeout''\<rparr>
       504"
  unfolding handleError_def by auto

lemma handleError_rejected:
  assumes "isAxiosError err"
    and "code err \<noteq> Some ''ECONNREFUSED''" and "code err \<noteq> Some ''ENOTFOUND''"
    and "code err \<noteq> Some ''ECONNABORTED''" and "code err \<noteq> Some ''ETIMEDOUT''"
    and "response err = Some r"
  shows "handleError err =
     HttpException
       \<lparr>statusCode = status r,
        message = ''Erreur lors de l'analyse : ''
          @ to_string (js_or (js_or (opt_prop (data r) ''detail'') (opt_prop (data r) ''message''))
                         (JStr ''Erreur inconnue du service IA'')),
        error = ''AI Service Error''\<rparr>
       (status r)"
  using assms unfolding handleError_def by (simp add: Let_def)

lemma handleError_unknown:
  assumes "\<not> isAxiosError err \<or>
     (code err \<noteq> Some ''ECONNREFUSED'' \<and> code err \<noteq> Some ''ENOTFOUND'' \<and>
      code err \<noteq> Some ''ECONNABORTED'' \<and> code err \<noteq> Some ''ETIMEDOUT'' \<and>
      response err = None)"
  shows "handleError err = internal_server_error"
  using assms unfolding handleError_def by auto

lemma client_failure:
  "post (serialize quotes) = Inl err \<Longrightarrow>
     AIServiceClient_analyzeQuotes post now quotes = Inl (handleError err)"
  by (simp add: AIServiceClient_analyzeQuotes_def Let_def)

lemma client_success:
  "post (serialize quotes) = Inr resp \<Longrightarrow>
     AIServiceClient_analyzeQuotes post now quotes =
       Inr \<lparr>analyses = map deserialize (AnalyzeResponse.analyses resp),
            recommendation = AnalyzeResponse.recommendation resp,
            analyzedAt = now\<rparr>"
  by (simp add: AIServiceClient_analyzeQuotes_def Let_def)

lemma client_never_bad_request:
  "AIServiceClient_analyzeQuotes post now quotes \<noteq> Inl (BadRequestException m)"
  by (simp add: AIServiceClient_analyzeQuotes_def handleError_def internal_server_error_def
      Let_def split: sum.splits option.splits)

text \<open>
  The current client. When the outbound call fails, it returns no result: it throws the one
  exception \<^const>\<open>handleError\<close> builds, an \<open>HttpException\<close> whose body carries its own
  status. Connection refused and host not found give 503 with the unavailable message; the
  two timeout codes give 504 with the timeout message; an error of any other code that
  carries a response gives the response's status, and its message ends with the
  response's \<open>detail\<close>: a non-empty string detail as it is, any other truthy detail as
  its string conversion. Every other failure gives the generic 500 error. The codes of the
  first two categories are those of failures that occur before a response arrives, and
  they are tested first.
\<close>

theorem handleError_taxonomy:
  "post (serialize quotes) = Inl err \<Longrightarrow>
     AIServiceClient_analyzeQuotes post now quotes = Inl (handleError err) \<and>
     (\<exists>body st. handleError err = HttpException body st \<and> statusCode body = st) \<and>
     (isAxiosError err \<and> (code err = Some ''ECONNREFUSED'' \<or> code err = Some ''ENOTFOUND'') \<longrightarrow>
        getStatus (handleError err) = 503 \<and>
        getMessage (handleError err) =
          ''Le service d'analyse IA est temporairement indisponible. Veuillez r''
            @ e_acute @ ''essayer dans quelques instants.'') \<and>
     (isAxiosError err \<and> (code err = Some ''ECONNABORTED'' \<or> code err = Some ''ETIMEDOUT'') \<longrightarrow>
        getStatus (handleError err) = 504 \<and>
        getMessage (handleError err) =
          ''L'analyse prend trop de temps. Veuillez r'' @ e_acute
            @ ''duire le nombre de devis ou r'' @ e_acute @ ''essayer.'') \<and>
     (isAxiosError err \<and> code err \<noteq> Some ''ECONNREFUSED'' \<and> code err \<noteq> Some ''ENOTFOUND'' \<and>
      code err \<noteq> Some ''ECONNABORTED'' \<and> code err \<noteq> Some ''ETIMEDOUT'' \<longrightarrow>
        (\<forall>r. response err = Some r \<longrightarrow>
           getStatus (handleError err) = status r \<and>
           (truthy (opt_prop (data r) ''detail'') \<longrightarrow>
              getMessage (handleError err) =
                ''Erreur lors de l'analyse : '' @ to_string (opt_prop (data r) ''detail'')) \<and>
           (\<forall>d. opt_prop (data r) ''detail'' = JStr d \<and> d \<noteq> [] \<longrightarrow>
              getMessage (handleError err) = ''Erreur lors de l'analyse : '' @ d))) \<and>
     (\<not> isAxiosError err \<or>
      (code err \<noteq> Some ''ECONNREFUSED'' \<and> code err \<noteq> Some ''ENOTFOUND'' \<and>
       code err \<noteq> Some ''ECONNABORTED'' \<and> code err \<noteq> Some ''ETIMEDOUT'' \<and>
       response err = None) \<longrightarrow>
        handleError err = internal_server_error \<and> getStatus (handleError err) = 500)"
proof (intro conjI impI allI)
  assume "post (serialize quotes) = Inl err"
  then show "AIServiceClient_analyzeQuotes post now quotes = Inl (handleError err)"
    by (rule client_failure)
next
  show "\<exists>body st. handleError err = HttpException body st \<and> statusCode body = st"
    by (rule handleError_is_http)
next
  assume "isAxiosError err \<and> (code err = Some ''ECONNREFUSED'' \<or> code err = Some ''ENOTFOUND'')"
  then have "handleError err =
     HttpException
       \<lparr>statusCode = 503,
        message = ''Le service d'analyse IA est temporairement indisponible. Veuillez r''
          @ e_acute @ ''essayer dans quelques instants.'',
        error = ''Service Unavailable''\<rparr>
       503"
    using handleError_unavailable by blast
  then show "getStatus (handleError err) = 503"
    and "getMessage (handleError err) =
          ''Le service d'analyse IA est temporairement indisponible. Veuillez r''
            @ e_acute @ ''essayer dans quelques instants.''"
    by simp_all
next
  assume "isAxiosError err \<and> (code err = Some ''ECONNABORTED'' \<or> code err = Some ''ETIMEDOUT'')"
  then have "handleError err =
     HttpException
       \<lparr>statusCode = 504,
        message = ''L'analyse prend trop de temps. Veuillez r'' @ e_acute
          @ ''duire le nombre de devis ou r'' @ e_acute @ ''essayer.'',
        error = ''Gateway Timeout''\<rparr>
       504"
    using handleError_timeout by blast
  then show "getStatus (handleError err) = 504"
    and "getMessage (handleError err) =
          ''L'analyse prend trop de temps. Veuillez r'' @ e_acute
            @ ''duire le nombre de devis ou r'' @ e_acute @ ''essayer.''"
    by simp_all
next
  fix r
  assume c: "isAxiosError err \<and> code err \<noteq> Some ''ECONNREFUSED'' \<and> code err \<noteq> Some ''ENOTFOUND'' \<and>
      code err \<noteq> Some ''ECONNABORTED'' \<and> code err \<noteq> Some ''ETIMEDOUT''"
    and r: "response err = Some r"
  have h: "handleError err =
     HttpException
       \<lparr>statusCode = status r,
        message = ''Erreur lors de l'analyse : ''
          @ to_string (js_or (js_or (opt_prop (data r) ''detail'') (opt_prop (data r) ''message''))
                         (JStr ''Erreur inconnue du service IA'')),
        error = ''AI Service Error''\<rparr>
       (status r)"
    using c r handleError_rejected by blast
  show "getStatus (handleError err) = status r"
    by (simp add: h)
  show "getMessage (handleError err) =
          ''Erreur lors de l'analyse : '' @ to_string (opt_prop (data r) ''detail'')"
    if "truthy (opt_prop (data r) ''detail'')"
    using that by (simp add: h js_or_def)
  show "getMessage (handleError err) = ''Erreur lors de l'analyse : '' @ d"
    if "opt_prop (data r) ''detail'' = JStr d \<and> d \<noteq> []" for d
    using that by (simp add: h js_or_def)
next
  assume "\<not> isAxiosError err \<or>
      (code err \<noteq> Some ''ECONNREFUSED'' \<and> code err \<noteq> Some ''ENOTFOUND'' \<and>
       code err \<noteq> Some ''ECONNABORTED'' \<and> code err \<noteq> Some ''ETIMEDOUT'' \<and>
       response err = None)"
  then show "handleError err = internal_server_error"
    by (rule handleError_unknown)
  then show "getStatus (handleError err) = 500"
    by (simp add: internal_server_error_def)
qed

theorem handleError_taxonomy_witness:
  "AIServiceClient_analyzeQuotes
       (\<lambda>p. Inl (AxiosError (Some ''ENOTFOUND'') None ''getaddrinfo ENOTFOUND'')) 0 [] =
     Inl (handleError (AxiosError (Some ''ENOTFOUND'') None ''getaddrinfo ENOTFOUND'')) \<and>
   getStatus (handleError (AxiosError (Some ''ENOTFOUND'') None ''getaddrinfo ENOTFOUND'')) = 503 \<and>
   getStatus (handleError
       (AxiosError (Some ''ECONNABORTED'') None ''timeout of 35000ms exceeded'')) = 504 \<and>
   getStatus (handleError
       (AxiosError (Some ''ERR_BAD_REQUEST'')
          (Some \<lparr>status = 422, data = JObj [(''detail'', JStr ''quota'')]\<rparr>)
          ''Request failed with status code 422'')) = 422 \<and>
   getMessage (handleError
       (AxiosError (Some ''ERR_BAD_REQUEST'')
          (Some \<lparr>status = 422, data = JObj [(''detail'', JStr ''quota'')]\<rparr>)
          ''Request failed with status code 422'')) = ''Erreur lors de l'analyse : quota'' \<and>
   getStatus (handleError (TypeError ''Cannot read properties of undefined'')) = 500"
  using
    handleError_taxonomy
      [of "\<lambda>p. Inl (AxiosError (Some ''ENOTFOUND'') None ''getaddrinfo ENOTFOUND'')" "[]"
          "AxiosError (Some ''ENOTFOUND'') None ''getaddrinfo ENOTFOUND''" 0]
    handleError_taxonomy
      [of "\<lambda>p. Inl (AxiosError (Some ''ECONNABORTED'') None ''timeout of 35000ms exceeded'')" "[]"
          "AxiosError (Some ''ECONNABORTED'') None ''timeout of 35000ms exceeded''" 0]
    handleError_taxonomy
      [of "\<lambda>p. Inl (AxiosError (Some ''ERR_BAD_REQUEST'')
                   (Some \<lparr>status = 422, data = JObj [(''detail'', JStr ''quota'')]\<rparr>)
                   ''Request failed with status code 422'')" "[]"
          "AxiosError (Some ''ERR_BAD_REQUEST'')
             (Some \<lparr>status = 422, data = JObj [(''detail'', JStr ''quota'')]\<rparr>)
             ''Request failed with status code 422''" 0]
    handleError_taxonomy
      [of "\<lambda>p. Inl (TypeError ''Cannot read properties of undefined'')" "[]"
          "TypeError ''Cannot read properties of undefined''" 0]
  by (simp add: opt_prop_def internal_server_error_def)

text \<open>
  The older client has no branch for host not found and none for a timeout: every failure
  without a response, connection refused apart, gets the generic error with status 500.
\<close>

lemma analyzeQuotes_catch_older_no_response:
  "isAxiosError err \<Longrightarrow> code err \<noteq> Some ''ECONNREFUSED'' \<Longrightarrow> response err = None \<Longrightarrow>
   analyzeQuotes_catch_older err = HttpExceptionOf ''Erreur lors de l'analyse des devis'' 500"
  by (simp add: analyzeQuotes_catch_older_def)

lemma analyzeQuotes_catch_older_null_body:
  "isAxiosError err \<Longrightarrow> code err \<noteq> Some ''ECONNREFUSED'' \<Longrightarrow> response err = Some r \<Longrightarrow>
   data r = JNull \<Longrightarrow>
   analyzeQuotes_catch_older err = Uncaught (TypeError ''Cannot read properties of null'')"
  by (simp add: analyzeQuotes_catch_older_def)

text \<open>
  Claim C4: every failure of the upstream call becomes one categorized error, 503 for
  connection refused or host not found, 504 for a timeout, the upstream's status and
  detail for a rejected request, 500 otherwise. The current client does so for string
  details (\<open>handleError_taxonomy\<close>); the code departs from the claim at these inputs.
  In the older client a timeout and a host not found both end as the generic 500 error,
  and an error response whose body is \<open>null\<close> lets a TypeError escape uncategorized. In
  the current client a structured detail, such as a list of validation errors, appears
  in the message as the tag \<open>[object Object]\<close> and not as the detail.
\<close>

theorem analyzeQuotes_older_misses_categories:
  "AIServiceClient_analyzeQuotes_older
       (\<lambda>p. Inl (AxiosError (Some ''ECONNABORTED'') None ''timeout of 30000ms exceeded'')) 0 [] =
     Inl (HttpExceptionOf ''Erreur lors de l'analyse des devis'' 500) \<and>
   AIServiceClient_analyzeQuotes_older
       (\<lambda>p. Inl (AxiosError (Some ''ENOTFOUND'') None ''getaddrinfo ENOTFOUND'')) 0 [] =
     Inl (HttpExceptionOf ''Erreur lors de l'analyse des devis'' 500) \<and>
   AIServiceClient_analyzeQuotes_older
       (\<lambda>p. Inl (AxiosError (Some ''ERR_BAD_RESPONSE'') (Some \<lparr>status = 502, data = JNull\<rparr>)
                   ''Request failed with status code 502'')) 0 [] =
     Inl (Uncaught (TypeError ''Cannot read properties of null'')) \<and>
   getMessage (handleError
       (AxiosError (Some ''ERR_BAD_REQUEST'')
          (Some \<lparr>status = 422,
                 data = JObj [(''detail'', JArr [JObj [(''msg'', JStr ''field required'')]])]\<rparr>)
          ''Request failed with status code 422'')) =
     ''Erreur lors de l'analyse : [object Object]''"
  by (simp add: AIServiceClient_analyzeQuotes_older_def analyzeQuotes_catch_older_def
      handleError_def opt_prop_def js_or_def Let_def)

lemma get_prop_status_ok:
  "get_prop v ''status'' = Inr (JStr ''ok'') \<longleftrightarrow>
     (\<exists>kvs. v = JObj kvs \<and> map_of kvs ''status'' = Some (JStr ''ok''))"
  by (cases v) (auto split: option.splits)

text \<open>
  Claim C7. The health check never throws: it always returns a boolean. It returns true
  exactly when the probe yields a response whose body is an object with a \<open>status\<close>
  field equal to the string \<open>ok\<close>; a probe that throws (a timeout included) and a body
  without that field value give false.
\<close>

theorem checkHealth_never_raises:
  "(\<exists>b. checkHealth get = Inr b) \<and>
   (checkHealth get = Inr True \<longleftrightarrow>
      (\<exists>resp kvs. get = Inr resp \<and> data resp = JObj kvs \<and>
         map_of kvs ''status'' = Some (JStr ''ok''))) \<and>
   (checkHealth get \<noteq> Inr True \<longrightarrow> checkHealth get = Inr False)"
proof (intro conjI impI)
  show total: "\<exists>b. checkHealth get = Inr b"
    by (auto simp: checkHealth_def Let_def split: sum.splits)
  show "checkHealth get = Inr True \<longleftrightarrow>
      (\<exists>resp kvs. get = Inr resp \<and> data resp = JObj kvs \<and>
         map_of kvs ''status'' = Some (JStr ''ok''))"
  proof (cases get)
    case (Inl e)
    then show ?thesis
      by (simp add: checkHealth_def)
  next
    case (Inr resp)
    have "checkHealth get = Inr True \<longleftrightarrow> get_prop (data resp) ''status'' = Inr (JStr ''ok'')"
      using Inr by (auto simp: checkHealth_def Let_def split: sum.splits)
    then show ?thesis
      using Inr by (simp add: get_prop_status_ok)
  qed
  show "checkHealth get = Inr False" if "checkHealth get \<noteq> Inr True"
    using total that by auto
qed

theorem checkHealth_never_raises_witness:
  "checkHealth (Inl (AxiosError (Some ''ECONNABORTED'') None ''timeout of 5000ms exceeded''))
     = Inr False \<and>
   checkHealth (Inl (AxiosError (Some ''ECONNREFUSED'') None ''connect ECONNREFUSED''))
     = Inr False \<and>
   checkHealth (Inr \<lparr>status = 200, data = JNull\<rparr>) = Inr False \<and>
   checkHealth (Inr \<lparr>status = 200, data = JObj [(''status'', JStr ''OK'')]\<rparr>) = Inr False \<and>
   checkHealth (Inr \<lparr>status = 200, data = JObj [(''status'', JStr ''ok'')]\<rparr>) = Inr True"
  using
    checkHealth_never_raises
      [of "Inl (AxiosError (Some ''ECONNABORTED'') None ''timeout of 5000ms exceeded'')"]
    checkHealth_never_raises
      [of "Inl (AxiosError (Some ''ECONNREFUSED'') None ''connect ECONNREFUSED'')"]
    checkHealth_never_raises [of "Inr \<lparr>status = 200, data = JNull\<rparr>"]
    checkHealth_never_raises [of "Inr \<lparr>status = 200, data = JObj [(''status'', JStr ''OK'')]\<rparr>"]
    checkHealth_never_raises [of "Inr \<lparr>status = 200, data = JObj [(''status'', JStr ''ok'')]\<rparr>"]
  by simp

lemma deserialize_fields:
  "price (deserialize u) = AnalysisPayload.price u"
  "strengths (deserialize u) = AnalysisPayload.strengths u"
  "weaknesses (deserialize u) = AnalysisPayload.weaknesses u"
  "risks (deserialize u) = AnalysisPayload.risks u"
  by (simp_all add: deserialize_def)

text \<open>
  Claim C8. On a successful response the client returns one analysis per analysis of the
  payload, in the payload's order, and each carries the payload's price as it is (null
  stays null, zero stays zero) and the payload's lists of strengths, weaknesses and risks
  as they are.
\<close>

theorem deserialize_preserves_price_and_lists:
  "post (serialize quotes) = Inr resp \<Longrightarrow>
     (\<exists>result. AIServiceClient_analyzeQuotes post now quotes = Inr result \<and>
        map price (analyses result) =
          map AnalysisPayload.price (AnalyzeResponse.analyses resp) \<and>
        map strengths (analyses result) =
          map AnalysisPayload.strengths (AnalyzeResponse.analyses resp) \<and>
        map weaknesses (analyses result) =
          map AnalysisPayload.weaknesses (AnalyzeResponse.analyses resp) \<and>
        map risks (analyses result) =
          map AnalysisPayload.risks (AnalyzeResponse.analyses resp))"
  by (simp add: client_success deserialize_fields comp_def)

theorem deserialize_preserves_price_and_lists_witness:
  "\<exists>result.
     AIServiceClient_analyzeQuotes
       (\<lambda>p. Inr \<lparr>AnalyzeResponse.analyses =
                    [\<lparr>vendor_name = ''A'', price = None, currency = ''EUR'',
                      strengths = [''s2'', ''s1''], weaknesses = [''w''], risks = [''r2'', ''r1''],
                      score = 70, score_reasoning = ''x''\<rparr>,
                     \<lparr>vendor_name = ''B'', price = Some 0, currency = ''EUR'',
                      strengths = [], weaknesses = [], risks = [],
                      score = 60, score_reasoning = ''y''\<rparr>],
                  recommendation = ''A''\<rparr>) 0 [] = Inr result \<and>
     map price (analyses result) = [None, Some 0] \<and>
     map strengths (analyses result) = [[''s2'', ''s1''], []] \<and>
     map weaknesses (analyses result) = [[''w''], []] \<and>
     map risks (analyses result) = [[''r2'', ''r1''], []]"
  using deserialize_preserves_price_and_lists
    [of "\<lambda>p. Inr \<lparr>AnalyzeResponse.analyses =
                    [\<lparr>vendor_name = ''A'', price = None, currency = ''EUR'',
                      strengths = [''s2'', ''s1''], weaknesses = [''w''], risks = [''r2'', ''r1''],
                      score = 70, score_reasoning = ''x''\<rparr>,
                     \<lparr>vendor_name = ''B'', price = Some 0, currency = ''EUR'',
                      strengths = [], weaknesses = [], risks = [],
                      score = 60, score_reasoning = ''y''\<rparr>],
                  recommendation = ''A''\<rparr>" "[]" _ 0]
  by simp

section \<open>Properties of the request handler\<close>

text \<open>
  Claim C3. The handler throws a \<open>BadRequestException\<close> exactly when the batch has fewer
  than 2 or more than 10 quotes, with the message of the bound that is broken. A batch of
  2 to 10 quotes, the bounds 2 and 10 included, goes on to the upstream call: the outcome
  is then the client's exception if the call fails, and the adjusted, ranked result if it
  succeeds.
\<close>

theorem analyzeQuotes_batch_size_validation:
  "((\<exists>m. QuotesService_analyzeQuotes post now quotes = Inl (BadRequestException m))
      \<longleftrightarrow> (length quotes < 2 \<or> 10 < length quotes)) \<and>
   (length quotes < 2 \<longrightarrow>
      QuotesService_analyzeQuotes post now quotes =
        Inl (BadRequestException
               ''Veuillez soumettre au moins 2 devis pour une comparaison pertinente'')) \<and>
   (10 < length quotes \<longrightarrow>
      QuotesService_analyzeQuotes post now quotes =
        Inl (BadRequestException
               (''Maximum 10 devis par analyse pour garantir un temps de r'' @ e_acute
                  @ ''ponse acceptable''))) \<and>
   (2 \<le> length quotes \<and> length quotes \<le> 10 \<longrightarrow>
      (case post (serialize quotes) of
         Inl err \<Rightarrow> QuotesService_analyzeQuotes post now quotes = Inl (handleError err)
       | Inr resp \<Rightarrow>
           QuotesService_analyzeQuotes post now quotes =
             Inr \<lparr>analyses =
                    rank (map applyBusinessRules
                            (map deserialize (AnalyzeResponse.analyses resp))),
                  recommendation = AnalyzeResponse.recommendation resp,
                  analyzedAt = now\<rparr>))"
proof (intro conjI impI)
  show "(\<exists>m. QuotesService_analyzeQuotes post now quotes = Inl (BadRequestException m))
      \<longleftrightarrow> (length quotes < 2 \<or> 10 < length quotes)"
    using client_never_bad_request [of post now quotes]
    by (auto simp: QuotesService_analyzeQuotes_def split: sum.splits)
next
  assume "length quotes < 2"
  then show "QuotesService_analyzeQuotes post now quotes =
        Inl (BadRequestException
               ''Veuillez soumettre au moins 2 devis pour une comparaison pertinente'')"
    by (simp add: QuotesService_analyzeQuotes_def)
next
  assume "10 < length quotes"
  then show "QuotesService_analyzeQuotes post now quotes =
        Inl (BadRequestException
               (''Maximum 10 devis par analyse pour garantir un temps de r'' @ e_acute
                  @ ''ponse acceptable''))"
    by (simp add: QuotesService_analyzeQuotes_def)
next
  assume "2 \<le> length quotes \<and> length quotes \<le> 10"
  then have "\<not> length quotes < 2" and "\<not> 10 < length quotes"
    by auto
  then show "case post (serialize quotes) of
         Inl err \<Rightarrow> QuotesService_analyzeQuotes post now quotes = Inl (handleError err)
       | Inr resp \<Rightarrow>
           QuotesService_analyzeQuotes post now quotes =
             Inr \<lparr>analyses =
                    rank (map applyBusinessRules
                            (map deserialize (AnalyzeResponse.analyses resp))),
                  recommendation = AnalyzeResponse.recommendation resp,
                  analyzedAt = now\<rparr>"
    by (simp add: QuotesService_analyzeQuotes_def AIServiceClient_analyzeQuotes_def Let_def
        split: sum.splits)
qed

theorem analyzeQuotes_batch_size_validation_witness:
  "(\<exists>m. QuotesService_analyzeQuotes
           (\<lambda>p. Inr \<lparr>AnalyzeResponse.analyses = [], recommendation = ''none''\<rparr>) 0
           [\<lparr>CreateQuoteDto.vendorName = ''A'', content = ''c'', category = ''k''\<rparr>]
         = Inl (BadRequestException m)) \<and>
   (\<exists>m. QuotesService_analyzeQuotes
           (\<lambda>p. Inr \<lparr>AnalyzeResponse.analyses = [], recommendation = ''none''\<rparr>) 0
           (replicate 11 \<lparr>CreateQuoteDto.vendorName = ''A'', content = ''c'', category = ''k''\<rparr>)
         = Inl (BadRequestException m)) \<and>
   QuotesService_analyzeQuotes
       (\<lambda>p. Inr \<lparr>AnalyzeResponse.analyses = [], recommendation = ''none''\<rparr>) 0
       (replicate 2 \<lparr>CreateQuoteDto.vendorName = ''A'', content = ''c'', category = ''k''\<rparr>)
     = Inr \<lparr>analyses = [], recommendation = ''none'', analyzedAt = 0\<rparr> \<and>
   QuotesService_analyzeQuotes
       (\<lambda>p. Inr \<lparr>AnalyzeResponse.analyses = [], recommendation = ''none''\<rparr>) 0
       (replicate 10 \<lparr>CreateQuoteDto.vendorName = ''A'', content = ''c'', category = ''k''\<rparr>)
     = Inr \<lparr>analyses = [], recommendation = ''none'', analyzedAt = 0\<rparr>"
  using
    analyzeQuotes_batch_size_validation
      [of "\<lambda>p. Inr \<lparr>AnalyzeResponse.analyses = [], recommendation = ''none''\<rparr>" 0
          "[\<lparr>CreateQuoteDto.vendorName = ''A'', content = ''c'', category = ''k''\<rparr>]"]
    analyzeQuotes_batch_size_validation
      [of "\<lambda>p. Inr \<lparr>AnalyzeResponse.analyses = [], recommendation = ''none''\<rparr>" 0
          "replicate 11 \<lparr>CreateQuoteDto.vendorName = ''A'', content = ''c'', category = ''k''\<rparr>"]
    analyzeQuotes_batch_size_validation
      [of "\<lambda>p. Inr \<lparr>AnalyzeResponse.analyses = [], recommendation = ''none''\<rparr>" 0
          "replicate 2 \<lparr>CreateQuoteDto.vendorName = ''A'', content = ''c'', category = ''k''\<rparr>"]
    analyzeQuotes_batch_size_validation
      [of "\<lambda>p. Inr \<lparr>AnalyzeResponse.analyses = [], recommendation = ''none''\<rparr>" 0
          "replicate 10 \<lparr>CreateQuoteDto.vendorName = ''A'', content = ''c'', category = ''k''\<rparr>"]
  by (simp add: rank_def array_sort_def)

end
